theory Spec2Isabelle
  imports Complex_Main
begin

section \<open>Strings and regular expressions of the JavaScript runtime\<close>

text \<open>
  Host names, protocols, messages and the text of the input field are \<open>string\<close>s: a
  character is a code unit below 256, which covers every string the properties below
  are about (the host name of a parsed URL is ASCII, a non-ASCII label being stored in
  its punycode form). On these code units \<open>toLowerCase\<close> maps \<open>A\<close> to \<open>Z\<close> and the
  capital letters 192 to 222 of Latin-1, the sign 215 apart, to the letter 32 places up.
\<close>

definition lower_char :: "char \<Rightarrow> char" where
  "lower_char c =
     (if ((65::nat) \<le> of_char c \<and> of_char c \<le> (90::nat))
         \<or> ((192::nat) \<le> of_char c \<and> of_char c \<le> (222::nat) \<and> of_char c \<noteq> (215::nat))
      then char_of (of_char c + (32::nat)) else c)"

definition toLowerCase :: "string \<Rightarrow> string" where
  "toLowerCase s = map lower_char s"

text \<open>\<open>s.startsWith(p)\<close>.\<close>

definition startsWith :: "string \<Rightarrow> string \<Rightarrow> bool" where
  "startsWith s p = (take (length p) s = p)"

text \<open>\<open>xs.includes(x)\<close> on an array of strings.\<close>

definition array_includes :: "string list \<Rightarrow> string \<Rightarrow> bool" where
  "array_includes xs x = (x \<in> set xs)"

text \<open>\<open>s.includes(t)\<close> on strings: \<open>t\<close> occurs in \<open>s\<close> as a substring.\<close>

fun str_includes :: "string \<Rightarrow> string \<Rightarrow> bool" where
  "str_includes [] t = (t = [])"
| "str_includes (c # s) t = (startsWith (c # s) t \<or> str_includes s t)"

text \<open>
  The regular expressions of the source use literal characters, character ranges,
  grouping, alternation and the anchor \<open>^\<close> only. \<open>rx_match r s\<close> is the list of the
  rests of \<open>s\<close> after each way in which \<open>r\<close> matches a prefix of \<open>s\<close>; a pattern that
  starts with \<open>^\<close> is found in \<open>s\<close> exactly when that list is not empty.
\<close>

datatype regex =
    Chr char
  | Rng char char
  | Cat regex regex
  | Alt regex regex
  | Eps

fun rx_match :: "regex \<Rightarrow> string \<Rightarrow> string list" where
  "rx_match Eps s = [s]"
| "rx_match (Chr c) s = (case s of [] \<Rightarrow> [] | x # xs \<Rightarrow> if x = c then [xs] else [])"
| "rx_match (Rng lo hi) s =
     (case s of [] \<Rightarrow> []
      | x # xs \<Rightarrow>
          if (of_char lo :: nat) \<le> of_char x \<and> (of_char x :: nat) \<le> of_char hi
          then [xs] else [])"
| "rx_match (Cat r1 r2) s = concat (map (rx_match r2) (rx_match r1 s))"
| "rx_match (Alt r1 r2) s = rx_match r1 s @ rx_match r2 s"

text \<open>A run of literal characters.\<close>

fun lit :: "string \<Rightarrow> regex" where
  "lit [] = Eps"
| "lit (c # cs) = Cat (Chr c) (lit cs)"

text \<open>\<open>pattern.test(s)\<close> for a pattern anchored at the start.\<close>

definition test :: "regex \<Rightarrow> string \<Rightarrow> bool" where
  "test r s = (rx_match r s \<noteq> [])"

text \<open>Decimal rendering of a number, as \<open>toString\<close> and template literals give it.\<close>

fun show_nat :: "nat \<Rightarrow> string" where
  "show_nat n =
     (if n < 10 then [char_of (48 + n)]
      else show_nat (n div 10) @ [char_of (48 + n mod 10)])"

declare show_nat.simps [simp del]

definition show_int :: "int \<Rightarrow> string" where
  "show_int i = (if i < 0 then CHR ''-'' # show_nat (nat (- i)) else show_nat (nat i))"

section \<open>The URL class of the runtime\<close>

text \<open>
  \<open>new URL(s)\<close> belongs to the runtime, not to the repository. The handlers read two
  properties of the parsed URL, \<open>protocol\<close> and \<open>hostname\<close>; the constructor is a
  parameter \<open>newURL\<close> of every function that calls it, with \<open>None\<close> for the
  \<open>TypeError\<close> it throws on a string that is not an absolute URL.
\<close>

record URL =
  protocol :: string
  hostname :: string

type_synonym url_parser = "string \<Rightarrow> URL option"

section \<open>Server: \<open>src/app/api/webhook-tester/route.ts\<close>\<close>

subsection \<open>\<open>isInternalUrl\<close>\<close>

definition blockedHosts :: "string list" where
  "blockedHosts = [''localhost'', ''127.0.0.1'', ''0.0.0.0'', ''::1'', ''0:0:0:0:0:0:0:1'']"

text \<open>\<open>(1[6-9]|2[0-9]|3[0-1])\<close>\<close>

definition rx_172_second :: regex where
  "rx_172_second =
     Alt (Cat (Chr CHR ''1'') (Rng CHR ''6'' CHR ''9''))
       (Alt (Cat (Chr CHR ''2'') (Rng CHR ''0'' CHR ''9''))
            (Cat (Chr CHR ''3'') (Rng CHR ''0'' CHR ''1'')))"

definition rx_10 :: regex where
  "rx_10 = lit ''10.''"

definition rx_172 :: regex where
  "rx_172 = Cat (lit ''172.'') (Cat rx_172_second (Chr CHR ''.''))"

definition rx_192_168 :: regex where
  "rx_192_168 = lit ''192.168.''"

definition rx_169_254 :: regex where
  "rx_169_254 = lit ''169.254.''"

definition rx_fc00 :: regex where
  "rx_fc00 = lit ''fc00:''"

definition rx_fd00 :: regex where
  "rx_fd00 = lit ''fd00:''"

definition privateIPPatterns :: "regex list" where
  "privateIPPatterns = [rx_10, rx_172, rx_192_168, rx_169_254, rx_fc00, rx_fd00]"

definition isInternalUrl :: "url_parser \<Rightarrow> string \<Rightarrow> bool" where
  "isInternalUrl newURL urlString =
     (case newURL urlString of
        None \<Rightarrow> True
      | Some url \<Rightarrow>
          (let host = toLowerCase (hostname url) in
           if array_includes blockedHosts host then True
           else if list_ex (\<lambda>pattern. test pattern host) privateIPPatterns then True
           else False))"

subsection \<open>Requests, responses and effects\<close>

text \<open>
  A JSON value as the handler looks at it: what \<open>typeof\<close> says and whether it is
  truthy. \<open>JObject\<close> stands for every object and array.
\<close>

datatype js_value =
    JUndefined
  | JNull
  | JBool bool
  | JNumber real
  | JString string
  | JObject

fun truthy :: "js_value \<Rightarrow> bool" where
  "truthy JUndefined = False"
| "truthy JNull = False"
| "truthy (JBool b) = b"
| "truthy (JNumber x) = (x \<noteq> 0)"
| "truthy (JString s) = (s \<noteq> [])"
| "truthy JObject = True"

text \<open>\<open>!v\<close>\<close>

definition falsy :: "js_value \<Rightarrow> bool" where
  "falsy v = (\<not> truthy v)"

fun typeof :: "js_value \<Rightarrow> string" where
  "typeof JUndefined = ''undefined''"
| "typeof JNull = ''object''"
| "typeof (JBool b) = ''boolean''"
| "typeof (JNumber x) = ''number''"
| "typeof (JString s) = ''string''"
| "typeof JObject = ''object''"

fun the_string :: "js_value \<Rightarrow> string" where
  "the_string (JString s) = s"
| "the_string v = []"

text \<open>
  What \<open>await request.json()\<close> followed by \<open>const { url } = body\<close> gives:
  \<open>json()\<close> rejects on a body that is not JSON; destructuring \<open>null\<close> throws a
  \<open>TypeError\<close>; on every other JSON value the property read gives the value of its
  \<open>url\<close> property, \<open>undefined\<close> when it has none.
\<close>

datatype request_body =
    JsonThrows
  | JsonNull
  | JsonValue js_value

text \<open>
  A value caught from \<open>fetch\<close>: an \<open>Error\<close> instance with its \<open>name\<close> and
  \<open>message\<close>, or anything else.
\<close>

datatype thrown =
    ErrorObj string string
  | NonError

text \<open>
  How the awaited \<open>fetch\<close> settles: it resolves with the status of the response and
  the value of \<open>Date.now()\<close> read right after it, or it rejects with the value thrown.
\<close>

datatype fetch_event =
    Resolved nat int
  | Rejected thrown

text \<open>
  The target of the probe, as the handler meets it: the response arrives a number of
  milliseconds after the request was started (\<open>Responds\<close> with the status, that number
  and the value that \<open>Date.now()\<close> has then), the request fails by itself after a
  number of milliseconds (\<open>Fails\<close>), or nothing ever comes back (\<open>Silent\<close>).
\<close>

datatype target =
    Responds nat nat int
  | Fails thrown nat
  | Silent

fun settles :: "target \<Rightarrow> (nat \<times> fetch_event) option" where
  "settles (Responds st d endNow) = Some (d, Resolved st endNow)"
| "settles (Fails e d) = Some (d, Rejected e)"
| "settles Silent = None"

text \<open>
  An aborted \<open>fetch\<close> rejects with the abort reason of its signal, a \<open>DOMException\<close>
  named \<open>AbortError\<close>; in the server runtime a \<open>DOMException\<close> is an \<open>Error\<close>
  instance.
\<close>

definition abort_reason :: thrown where
  "abort_reason = ErrorObj ''AbortError'' ''This operation was aborted''"

record TestResponse =
  r_success :: "bool option"
  r_statusCode :: "nat option"
  r_latency :: "int option"
  r_error :: "string option"
  r_message :: "string option"

record http_response =
  status :: nat
  body :: TestResponse

record payload =
  p_event :: string
  p_timestamp :: string
  p_source :: string
  p_test_id :: string

record outbound =
  o_url :: string
  o_method :: string
  o_headers :: "(string \<times> string) list"
  o_body :: payload

text \<open>\<open>new AbortController()\<close> and \<open>controller.abort()\<close>.\<close>

record AbortController =
  signal_aborted :: bool

definition abort :: "AbortController \<Rightarrow> AbortController" where
  "abort c = c\<lparr>signal_aborted := True\<rparr>"

text \<open>
  The timer of the handler: none, armed with a delay in milliseconds and a callback that
  acts on the controller, fired, or cleared while it was armed.
\<close>

datatype timer_state =
    NoTimer
  | Armed nat "AbortController \<Rightarrow> AbortController"
  | Fired
  | Cleared

text \<open>
  What the handler has done to the world: the requests it sent, its timer, the calls of
  \<open>clearTimeout\<close>, its controller, the milliseconds it spent awaiting \<open>fetch\<close>, and
  the calls of \<open>console.error\<close>.
\<close>

record effects =
  requests :: "outbound list"
  timer :: timer_state
  clearTimeout_calls :: nat
  controller :: AbortController
  waited :: nat
  console_errors :: nat

definition no_effects :: effects where
  "no_effects =
     \<lparr>requests = [], timer = NoTimer, clearTimeout_calls = 0,
      controller = \<lparr>signal_aborted = False\<rparr>, waited = 0, console_errors = 0\<rparr>"

definition timer_pending :: "effects \<Rightarrow> bool" where
  "timer_pending fx = (case timer fx of Armed delay cb \<Rightarrow> True | _ \<Rightarrow> False)"

definition aborted :: "effects \<Rightarrow> bool" where
  "aborted fx = signal_aborted (controller fx)"

text \<open>The values the handler reads from its environment, and the target it probes.\<close>

record server_env =
  isoNow :: string
  randomId :: string
  startNow :: int
  target :: target

text \<open>\<open>setTimeout(callback, delay)\<close> and \<open>clearTimeout(timeout)\<close>.\<close>

definition setTimeout :: "(AbortController \<Rightarrow> AbortController) \<Rightarrow> nat \<Rightarrow> effects \<Rightarrow> effects" where
  "setTimeout cb delay fx = fx\<lparr>timer := Armed delay cb\<rparr>"

definition clearTimeout :: "effects \<Rightarrow> effects" where
  "clearTimeout fx =
     fx\<lparr>timer := (case timer fx of Armed delay cb \<Rightarrow> Cleared | t \<Rightarrow> t),
        clearTimeout_calls := clearTimeout_calls fx + 1\<rparr>"

definition send :: "outbound \<Rightarrow> effects \<Rightarrow> effects" where
  "send r fx = fx\<lparr>requests := requests fx @ [r]\<rparr>"

text \<open>
  The runtime between \<open>fetch(url, { signal: controller.signal })\<close> and the
  continuation of \<open>await\<close>. Without a timer in the way the request settles when the
  target lets it, and never if the target is silent (\<open>None\<close>).
\<close>

definition settle_fetch :: "target \<Rightarrow> effects \<Rightarrow> fetch_event option \<times> effects" where
  "settle_fetch tg fx =
     (case settles tg of
        None \<Rightarrow> (None, fx)
      | Some (d, ev) \<Rightarrow> (Some ev, fx\<lparr>waited := d\<rparr>))"

text \<open>
  With an armed timer, a request that settles before the delay has passed settles as
  above, the timer still armed. Otherwise the timer fires when the delay has passed and
  its callback runs on the controller; if the signal is aborted then, the request
  rejects with the abort reason, and if it is not, the request goes on waiting for the
  target. A tie between the two is given to the timer.
\<close>

definition await_fetch :: "target \<Rightarrow> effects \<Rightarrow> fetch_event option \<times> effects" where
  "await_fetch tg fx =
     (case timer fx of
        Armed delay cb \<Rightarrow>
          if (case settles tg of None \<Rightarrow> False | Some (d, ev) \<Rightarrow> d < delay)
          then settle_fetch tg fx
          else
            (let fx = fx\<lparr>timer := Fired, controller := cb (controller fx)\<rparr> in
             if signal_aborted (controller fx)
             then (Some (Rejected abort_reason), fx\<lparr>waited := delay\<rparr>)
             else settle_fetch tg fx)
      | _ \<Rightarrow> settle_fetch tg fx)"

text \<open>\<open>NextResponse.json(body, { status })\<close>; the status is 200 when none is given.\<close>

definition json :: "nat \<Rightarrow> TestResponse \<Rightarrow> http_response" where
  "json st b = \<lparr>status = st, body = b\<rparr>"

definition failure :: "string \<Rightarrow> TestResponse" where
  "failure msg =
     \<lparr>r_success = Some False, r_statusCode = None, r_latency = None, r_error = Some msg,
      r_message = None\<rparr>"

subsection \<open>\<open>POST\<close>\<close>

text \<open>
  The handler gives a response, or \<open>None\<close> when it never returns, together with its
  effects.
\<close>

type_synonym outcome = "http_response option \<times> effects"

text \<open>The \<open>catch (fetchError)\<close> block, after \<open>clearTimeout\<close>.\<close>

fun fetch_failed :: "thrown \<Rightarrow> http_response" where
  "fetch_failed (ErrorObj name message) =
     (if name = ''AbortError'' then json 200 (failure ''Request timeout (>10s)'')
      else if str_includes message ''fetch failed''
        then json 200 (failure ''Network error: Could not reach the URL'')
      else json 200 (failure (''Request failed: '' @ message)))"
| "fetch_failed NonError = json 200 (failure ''Unknown error occurred'')"

text \<open>From the payload to the end of the inner \<open>try\<close>/\<open>catch\<close>.\<close>

definition probe :: "server_env \<Rightarrow> string \<Rightarrow> outcome" where
  "probe env url =
     (let payload =
            \<lparr>p_event = ''test_ping'', p_timestamp = isoNow env,
             p_source = ''webhook_tester'', p_test_id = randomId env\<rparr>;
          startTime = startNow env;
          fx = setTimeout abort 10000 no_effects;
          fx = send \<lparr>o_url = url, o_method = ''POST'',
                     o_headers = [(''Content-Type'', ''application/json''),
                                  (''User-Agent'', ''WebhookTester/1.0'')],
                     o_body = payload\<rparr> fx
      in case await_fetch (target env) fx of
           (None, fx) \<Rightarrow> (None, fx)
         | (Some (Resolved st endTime), fx) \<Rightarrow>
             (let latency = endTime - startTime; fx = clearTimeout fx
              in (Some (json 200
                    \<lparr>r_success = Some True, r_statusCode = Some st,
                     r_latency = Some latency, r_error = None,
                     r_message = Some (''Webhook responded with '' @ show_nat st)\<rparr>),
                  fx))
         | (Some (Rejected fetchError), fx) \<Rightarrow>
             (let fx = clearTimeout fx in (Some (fetch_failed fetchError), fx)))"

text \<open>The outer \<open>catch\<close>.\<close>

definition internal_error :: outcome where
  "internal_error =
     (Some (json 500 (failure ''Internal server error'')), no_effects\<lparr>console_errors := 1\<rparr>)"

definition POST :: "url_parser \<Rightarrow> server_env \<Rightarrow> request_body \<Rightarrow> outcome" where
  "POST newURL env request =
     (case request of
        JsonThrows \<Rightarrow> internal_error
      | JsonNull \<Rightarrow> internal_error
      | JsonValue url \<Rightarrow>
          if falsy url \<or> typeof url \<noteq> ''string'' then
            (Some (json 400
               \<lparr>r_success = None, r_statusCode = None, r_latency = None,
                r_error = Some ''URL is required and must be a string'', r_message = None\<rparr>),
             no_effects)
          else
            (case newURL (the_string url) of
               None \<Rightarrow> (Some (json 400 (failure ''Invalid URL format'')), no_effects)
             | Some targetUrl \<Rightarrow>
                 if \<not> array_includes [''http:'', ''https:''] (protocol targetUrl) then
                   (Some (json 400 (failure ''Only HTTP and HTTPS protocols are allowed'')),
                    no_effects)
                 else if isInternalUrl newURL (the_string url) then
                   (Some (json 403 (failure ''Access to internal/private URLs is not allowed'')),
                    no_effects)
                 else probe env (the_string url)))"

section \<open>Client: the page component\<close>

subsection \<open>\<open>isValidUrl\<close>\<close>

definition client_blockedHosts :: "string list" where
  "client_blockedHosts = [''localhost'', ''127.0.0.1'', ''0.0.0.0'', ''::1'']"

text \<open>\<open>/^10\.|^172\.(1[6-9]|2[0-9]|3[0-1])\.|^192\.168\./\<close>\<close>

definition client_private_rx :: regex where
  "client_private_rx =
     Alt (lit ''10.'')
       (Alt (Cat (lit ''172.'') (Cat rx_172_second (Chr CHR ''.''))) (lit ''192.168.''))"

definition isValidUrl :: "url_parser \<Rightarrow> string \<Rightarrow> bool" where
  "isValidUrl newURL urlString =
     (case newURL urlString of
        None \<Rightarrow> False
      | Some urlObj \<Rightarrow>
          (let host = toLowerCase (hostname urlObj) in
           if list_ex (\<lambda>blocked. host = blocked \<or> startsWith host (blocked @ ''.''))
                client_blockedHosts
           then False
           else if test client_private_rx host then False
           else protocol urlObj = ''http:'' \<or> protocol urlObj = ''https:''))"

subsection \<open>\<open>testWebhook\<close>\<close>

record WebhookTest =
  t_id :: string
  t_url :: string
  t_statusCode :: "nat option"
  t_latency :: "int option"
  t_timestamp :: string
  t_error :: "string option"

text \<open>The four pieces of component state.\<close>

record client_state =
  c_url :: string
  c_isLoading :: bool
  c_tests :: "WebhookTest list"
  c_error :: string

text \<open>
  How the request to \<open>/api/webhook-tester\<close> ends: \<open>response.json()\<close> gives the
  data, or \<open>fetch\<close> or \<open>json()\<close> throws.
\<close>

datatype backend_result =
    Data TestResponse
  | Throws thrown

text \<open>
  The values \<open>testWebhook\<close> reads from its environment: \<open>performance.now()\<close>
  before and after the request, \<open>Date.now()\<close>, \<open>new Date().toISOString()\<close>, and the
  outcome of the request.
\<close>

record client_env =
  perfStart :: real
  perfEnd :: real
  dateNow :: int
  isoTime :: string
  backend :: backend_result

text \<open>
  \<open>s.trim()\<close> strips white space and line terminators from both ends; among the code
  units below 256 these are 9 to 13, 32 and 160 (the no-break space).
\<close>

definition is_space :: "char \<Rightarrow> bool" where
  "is_space c = (of_char c \<in> set [9, 10, 11, 12, 13, 32, 160 :: nat])"

definition trim :: "string \<Rightarrow> string" where
  "trim s = rev (dropWhile is_space (rev (dropWhile is_space s)))"

text \<open>\<open>Math.round\<close>: the nearest integer, a half rounded up.\<close>

definition Math_round :: "real \<Rightarrow> int" where
  "Math_round x = \<lfloor>x + 1 / 2\<rfloor>"

text \<open>\<open>x || null\<close> and \<open>x || d\<close> on an optional number: 0 is falsy.\<close>

definition or_null :: "nat option \<Rightarrow> nat option" where
  "or_null x = (case x of None \<Rightarrow> None | Some n \<Rightarrow> if n \<noteq> 0 then Some n else None)"

definition or_else :: "int option \<Rightarrow> int \<Rightarrow> int" where
  "or_else x d = (case x of None \<Rightarrow> d | Some n \<Rightarrow> if n \<noteq> 0 then n else d)"

text \<open>The updater \<open>(prev) => [newTest, ...prev].slice(0, 20)\<close>.\<close>

definition addTest :: "WebhookTest \<Rightarrow> WebhookTest list \<Rightarrow> WebhookTest list" where
  "addTest newTest prev = take 20 (newTest # prev)"

text \<open>The entry built in the \<open>try\<close> block and the one built in the \<open>catch\<close> block.\<close>

definition newTest_try :: "client_env \<Rightarrow> string \<Rightarrow> TestResponse \<Rightarrow> WebhookTest" where
  "newTest_try env url data =
     \<lparr>t_id = show_int (dateNow env),
      t_url = url,
      t_statusCode = or_null (r_statusCode data),
      t_latency = Some (or_else (r_latency data) (Math_round (perfEnd env - perfStart env))),
      t_timestamp = isoTime env,
      t_error = r_error data\<rparr>"

definition newTest_catch :: "client_env \<Rightarrow> string \<Rightarrow> thrown \<Rightarrow> WebhookTest" where
  "newTest_catch env url err =
     \<lparr>t_id = show_int (dateNow env),
      t_url = url,
      t_statusCode = None,
      t_latency = None,
      t_timestamp = isoTime env,
      t_error = Some (case err of ErrorObj name message \<Rightarrow> message
                      | NonError \<Rightarrow> ''Unknown error occurred'')\<rparr>"

definition newTest :: "client_env \<Rightarrow> string \<Rightarrow> WebhookTest" where
  "newTest env url =
     (case backend env of
        Data data \<Rightarrow> newTest_try env url data
      | Throws err \<Rightarrow> newTest_catch env url err)"

definition testWebhook :: "url_parser \<Rightarrow> client_env \<Rightarrow> client_state \<Rightarrow> client_state" where
  "testWebhook newURL env st =
     (let st = st\<lparr>c_error := []\<rparr> in
      if trim (c_url st) = [] then st\<lparr>c_error := ''Please enter a URL''\<rparr>
      else if \<not> isValidUrl newURL (c_url st) then
        st\<lparr>c_error :=
             ''Invalid URL or blocked for security reasons (no localhost/private IPs)''\<rparr>
      else
        (let st = st\<lparr>c_isLoading := True\<rparr>;
             st = (case backend env of
                     Data data \<Rightarrow>
                       st\<lparr>c_tests := addTest (newTest_try env (c_url st) data) (c_tests st),
                          c_url := []\<rparr>
                   | Throws err \<Rightarrow>
                       st\<lparr>c_tests := addTest (newTest_catch env (c_url st) err) (c_tests st)\<rparr>)
         in st\<lparr>c_isLoading := False\<rparr>))"

text \<open>
  The user types a URL and submits it, once for each element of a list of inputs.
\<close>

fun submit_all :: "url_parser \<Rightarrow> (string \<times> client_env) list \<Rightarrow> client_state \<Rightarrow> client_state" where
  "submit_all newURL [] st = st"
| "submit_all newURL ((u, env) # rest) st =
     submit_all newURL rest (testWebhook newURL env (st\<lparr>c_url := u\<rparr>))"

section \<open>The address classes of the specification\<close>

text \<open>
  The specification names the private classes by their dotted-quad shape (10.x.x.x,
  172.16.x.x to 172.31.x.x, 192.168.x.x, 169.254.x.x). \<open>dotted_quad a b c d\<close> is the
  host name written from four numbers in decimal.
\<close>

definition dotted_quad :: "nat \<Rightarrow> nat \<Rightarrow> nat \<Rightarrow> nat \<Rightarrow> string" where
  "dotted_quad a b c d =
     show_nat a @ ''.'' @ show_nat b @ ''.'' @ show_nat c @ ''.'' @ show_nat d"

section \<open>Example inputs\<close>

text \<open>
  What \<open>new URL\<close> gives on the strings used in the examples below; on these strings it
  agrees with the runtime's parser, and \<open>not a url\<close> is the one other string the
  examples pass to it.
\<close>

definition sample_newURL :: url_parser where
  "sample_newURL s =
     (if s = ''https://example.com/hook'' then
        Some \<lparr>protocol = ''https:'', hostname = ''example.com''\<rparr>
      else if s = ''http://localhost/'' then
        Some \<lparr>protocol = ''http:'', hostname = ''localhost''\<rparr>
      else if s = ''http://127.0.0.1.evil/'' then
        Some \<lparr>protocol = ''http:'', hostname = ''127.0.0.1.evil''\<rparr>
      else if s = ''http://169.254.1.1/'' then
        Some \<lparr>protocol = ''http:'', hostname = ''169.254.1.1''\<rparr>
      else if s = ''http://10.0.0.1/'' then
        Some \<lparr>protocol = ''http:'', hostname = ''10.0.0.1''\<rparr>
      else if s = ''http://[fc00::1]/'' then
        Some \<lparr>protocol = ''http:'', hostname = ''[fc00::1]''\<rparr>
      else if s = ''ftp://example.com/'' then
        Some \<lparr>protocol = ''ftp:'', hostname = ''example.com''\<rparr>
      else None)"

definition sample_env :: "target \<Rightarrow> server_env" where
  "sample_env tg =
     \<lparr>isoNow = ''2024-01-01T00:00:00.000Z'', randomId = ''k3x9q'', startNow = 1000,
      target = tg\<rparr>"

text \<open>
  The body of a response that reports the latency 0, a round trip of 12.4 milliseconds on
  the client's clock, an empty page, and 25 submissions.
\<close>

definition sample_zero_latency :: TestResponse where
  "sample_zero_latency =
     \<lparr>r_success = Some True, r_statusCode = Some 200, r_latency = Some 0, r_error = None,
      r_message = Some ''Webhook responded with 200''\<rparr>"

definition sample_client_env :: "int \<Rightarrow> backend_result \<Rightarrow> client_env" where
  "sample_client_env now r =
     \<lparr>perfStart = 5000, perfEnd = 5012.4, dateNow = now,
      isoTime = ''2024-01-01T00:00:01.000Z'', backend = r\<rparr>"

definition sample_state :: "string \<Rightarrow> client_state" where
  "sample_state u = \<lparr>c_url = u, c_isLoading = False, c_tests = [], c_error = []\<rparr>"

definition sample_inputs :: "(string \<times> client_env) list" where
  "sample_inputs =
     map (\<lambda>n. (''https://example.com/hook'', sample_client_env (int n) (Throws NonError)))
       [1 ..< 26]"

section \<open>Properties of the server handler\<close>

lemma rx_match_lit:
  "rx_match (lit p) s = (if startsWith s p then [drop (length p) s] else [])"
proof (induction p arbitrary: s)
  case Nil
  show ?case by (simp add: startsWith_def)
next
  case (Cons c p)
  show ?case
  proof (cases s)
    case Nil
    then show ?thesis by (simp add: startsWith_def)
  next
    case (Cons x xs)
    then show ?thesis using Cons.IH [of xs] by (simp add: startsWith_def)
  qed
qed

lemma test_lit: "test (lit p) s = startsWith s p"
  by (simp add: test_def rx_match_lit)

lemma POST_probe:
  assumes "s \<noteq> []" and "newURL s = Some u"
    and "protocol u = ''http:'' \<or> protocol u = ''https:''"
    and "\<not> isInternalUrl newURL s"
  shows "POST newURL env (JsonValue (JString s)) = probe env s"
  using assms by (auto simp: POST_def falsy_def array_includes_def)

lemmas probe_defs = probe_def Let_def await_fetch_def settle_fetch_def setTimeout_def
  clearTimeout_def send_def abort_def no_effects_def timer_pending_def aborted_def

lemma probe_timer:
  "\<not> timer_pending (snd (probe env url)) \<and> clearTimeout_calls (snd (probe env url)) = 1
   \<and> length (requests (snd (probe env url))) = 1"
  by (cases "target env") (simp_all add: probe_defs split: thrown.split)

lemma probe_requests: "requests (snd (probe env url)) \<noteq> []"
  using probe_timer [of env url] by auto

lemma fetch_failed_status: "status (fetch_failed e) = 200"
  by (cases e) (simp_all add: json_def)

lemma probe_status: "map_option status (fst (probe env url)) = Some 200"
  by (cases "target env")
     (simp_all add: probe_defs json_def fetch_failed_status abort_reason_def)

lemma probe_Resolved:
  "target env = Responds st d endTime \<Longrightarrow> d < 10000 \<Longrightarrow>
   fst (probe env url) =
     Some (json 200 \<lparr>r_success = Some True, r_statusCode = Some st,
               r_latency = Some (endTime - startNow env), r_error = None,
               r_message = Some (''Webhook responded with '' @ show_nat st)\<rparr>)"
  by (simp add: probe_defs)

lemma probe_Rejected:
  "target env = Fails e d \<Longrightarrow> d < 10000 \<Longrightarrow> fst (probe env url) = Some (fetch_failed e)"
  by (simp add: probe_defs)

lemma probe_Deadline:
  assumes "target env = Silent \<or> (target env = Responds st d t \<and> 10000 < d)
      \<or> (target env = Fails e d \<and> 10000 < d)"
  shows "fst (probe env url) = Some (json 200 (failure ''Request timeout (>10s)'')) \<and>
   aborted (snd (probe env url)) \<and> \<not> timer_pending (snd (probe env url)) \<and>
   length (requests (snd (probe env url))) = 1 \<and> waited (snd (probe env url)) = 10000"
  using assms by (auto simp: probe_defs abort_reason_def)

lemma sample_evil_not_internal: "\<not> isInternalUrl sample_newURL ''http://127.0.0.1.evil/''"
  by code_simp

text \<open>
  Claim C1. A host name that begins with a blocklist entry followed by a dot, such as
  \<open>127.0.0.1.evil\<close>, is to be rejected by the server with status 403 and without an
  outbound request. The server compares the host name with the blocklist entries for
  equality only: on \<open>http://127.0.0.1.evil/\<close> the handler goes on to the probe and
  sends the request, while the client's validator rejects the same URL.
\<close>

theorem C1_prefix_host_is_probed:
  "POST sample_newURL env (JsonValue (JString ''http://127.0.0.1.evil/'')) = probe env ''http://127.0.0.1.evil/''
   \<and> requests (snd (POST sample_newURL env (JsonValue (JString ''http://127.0.0.1.evil/'')))) \<noteq> []
   \<and> \<not> isValidUrl sample_newURL ''http://127.0.0.1.evil/''"
proof -
  have p: "POST sample_newURL env (JsonValue (JString ''http://127.0.0.1.evil/'')) = probe env ''http://127.0.0.1.evil/''"
    by (rule POST_probe [where u = "\<lparr>protocol = ''http:'', hostname = ''127.0.0.1.evil''\<rparr>"])
       (simp_all add: sample_newURL_def sample_evil_not_internal)
  have v: "\<not> isValidUrl sample_newURL ''http://127.0.0.1.evil/''" by code_simp
  show ?thesis using p v probe_requests by simp
qed

text \<open>
  The host name of a URL with an IPv6 address is the address in square brackets, and no
  entry of the blocklist and no private pattern begins with a bracket.
\<close>

lemma lower_char_bracket: "lower_char CHR ''['' = CHR ''[''"
  by code_simp

lemma bracketed_host_not_internal:
  assumes "newURL s = Some u" and "hostname u = CHR ''['' # rest"
  shows "\<not> isInternalUrl newURL s"
  using assms
  by (simp add: isInternalUrl_def Let_def toLowerCase_def lower_char_bracket
      array_includes_def blockedHosts_def privateIPPatterns_def test_def rx_10_def rx_172_def
      rx_192_168_def rx_169_254_def rx_fc00_def rx_fd00_def)

lemma sample_ula_parses:
  "sample_newURL ''http://[fc00::1]/'' = Some \<lparr>protocol = ''http:'', hostname = ''[fc00::1]''\<rparr>"
  by (simp add: sample_newURL_def)

text \<open>
  Claim C3. The server is to reject the hosts of the private classes, those of IPv6
  that begin with \<open>fc00:\<close> or \<open>fd00:\<close> among them. The patterns \<open>/^fc00:/\<close> and
  \<open>/^fd00:/\<close> are tested on the host name as the URL gives it, which for an IPv6
  address begins with a bracket: on \<open>http://[fc00::1]/\<close> the host is not internal
  for the server, and the handler goes on to the probe and sends the request. The
  classes of IPv4 are rejected (\<open>private_ipv4_rejected\<close>, \<open>private_examples\<close>,
  \<open>private_boundaries\<close> below).
\<close>

theorem C3_bracketed_ipv6_is_probed:
  "\<not> isInternalUrl sample_newURL ''http://[fc00::1]/''
   \<and> POST sample_newURL env (JsonValue (JString ''http://[fc00::1]/'')) = probe env ''http://[fc00::1]/''
   \<and> requests (snd (POST sample_newURL env (JsonValue (JString ''http://[fc00::1]/'')))) \<noteq> []"
proof -
  have i: "\<not> isInternalUrl sample_newURL ''http://[fc00::1]/''"
    using bracketed_host_not_internal [of sample_newURL "''http://[fc00::1]/''"
        "\<lparr>protocol = ''http:'', hostname = ''[fc00::1]''\<rparr>" "''fc00::1]''"] sample_ula_parses
    by simp
  have p: "POST sample_newURL env (JsonValue (JString ''http://[fc00::1]/'')) = probe env ''http://[fc00::1]/''"
    by (rule POST_probe [where u = "\<lparr>protocol = ''http:'', hostname = ''[fc00::1]''\<rparr>"])
       (simp_all add: sample_ula_parses i)
  show ?thesis using i p probe_requests by simp
qed


text \<open>The dotted quads of the private classes of IPv4.\<close>

lemma show_nat_consts:
  "show_nat 10 = ''10''" "show_nat 172 = ''172''" "show_nat 192 = ''192''"
  "show_nat 168 = ''168''" "show_nat 169 = ''169''" "show_nat 254 = ''254''"
  by code_simp+

lemma show_nat_16_31:
  "show_nat 16 = ''16''" "show_nat 17 = ''17''" "show_nat 18 = ''18''" "show_nat 19 = ''19''"
  "show_nat 20 = ''20''" "show_nat 21 = ''21''" "show_nat 22 = ''22''" "show_nat 23 = ''23''"
  "show_nat 24 = ''24''" "show_nat 25 = ''25''" "show_nat 26 = ''26''" "show_nat 27 = ''27''"
  "show_nat 28 = ''28''" "show_nat 29 = ''29''" "show_nat 30 = ''30''" "show_nat 31 = ''31''"
  by code_simp+

lemma second_octet:
  assumes "16 \<le> b" and "b \<le> 31"
  shows "rx_match rx_172_second (show_nat b @ r) = [r]"
proof -
  from assms have "b = 16 \<or> b = 17 \<or> b = 18 \<or> b = 19 \<or> b = 20 \<or> b = 21 \<or> b = 22
      \<or> b = 23 \<or> b = 24 \<or> b = 25 \<or> b = 26 \<or> b = 27 \<or> b = 28 \<or> b = 29 \<or> b = 30
      \<or> b = 31"
    by arith
  then show ?thesis
    by (elim disjE) (simp_all add: show_nat_16_31 rx_172_second_def)
qed

lemma test_rx_10: "test rx_10 (dotted_quad 10 b c d)"
  by (simp add: rx_10_def test_lit startsWith_def dotted_quad_def show_nat_consts del: lit.simps)

lemma test_rx_172:
  "16 \<le> b \<Longrightarrow> b \<le> 31 \<Longrightarrow> test rx_172 (dotted_quad 172 b c d)"
  by (simp add: rx_172_def test_def rx_match_lit startsWith_def dotted_quad_def
      show_nat_consts second_octet del: lit.simps)

lemma test_rx_192_168: "test rx_192_168 (dotted_quad 192 168 c d)"
  by (simp add: rx_192_168_def test_lit startsWith_def dotted_quad_def show_nat_consts del: lit.simps)

lemma test_rx_169_254: "test rx_169_254 (dotted_quad 169 254 c d)"
  by (simp add: rx_169_254_def test_lit startsWith_def dotted_quad_def show_nat_consts del: lit.simps)

lemma private_internal:
  assumes "newURL s = Some u"
    and "list_ex (\<lambda>p. test p (toLowerCase (hostname u))) privateIPPatterns"
  shows "isInternalUrl newURL s"
  using assms by (simp add: isInternalUrl_def Let_def)

lemma blocked_internal:
  assumes "newURL s = Some u" and "toLowerCase (hostname u) \<in> set blockedHosts"
  shows "isInternalUrl newURL s"
  using assms by (simp add: isInternalUrl_def Let_def array_includes_def)

lemma POST_internal:
  assumes "s \<noteq> []" and "newURL s = Some u"
    and "protocol u = ''http:'' \<or> protocol u = ''https:''"
    and "isInternalUrl newURL s"
  shows "POST newURL env (JsonValue (JString s)) =
           (Some (json 403 (failure ''Access to internal/private URLs is not allowed'')),
            no_effects)"
  using assms by (auto simp: POST_def falsy_def array_includes_def)

lemma private_ipv4_matches:
  assumes "h = dotted_quad 10 b c d \<or> (h = dotted_quad 172 b c d \<and> 16 \<le> b \<and> b \<le> 31)
      \<or> h = dotted_quad 192 168 c d \<or> h = dotted_quad 169 254 c d"
  shows "list_ex (\<lambda>p. test p h) privateIPPatterns"
  using assms test_rx_10 [of b c d] test_rx_172 [of b c d] test_rx_192_168 [of c d]
    test_rx_169_254 [of c d]
  by (auto simp: privateIPPatterns_def)

lemma private_examples:
  "list_all (\<lambda>h. list_ex (\<lambda>p. test p h) privateIPPatterns)
     [''10.0.0.1'', ''172.16.0.1'', ''172.31.255.255'', ''192.168.1.1'', ''169.254.1.1'']"
  by code_simp

lemma private_boundaries:
  "\<not> list_ex (\<lambda>p. test p ''172.15.255.255'') privateIPPatterns"
  "\<not> list_ex (\<lambda>p. test p ''172.32.0.0.1'') privateIPPatterns"
  by code_simp+

lemma private_ipv4_rejected:
  assumes "newURL s = Some u" and "toLowerCase (hostname u) = h"
    and "h = dotted_quad 10 b c d \<or> (h = dotted_quad 172 b c d \<and> 16 \<le> b \<and> b \<le> 31)
      \<or> h = dotted_quad 192 168 c d \<or> h = dotted_quad 169 254 c d"
  shows "isInternalUrl newURL s"
  using private_ipv4_matches [OF assms(3)] assms(1,2) by (simp add: private_internal)

lemma sample_hook_parses:
  "sample_newURL ''https://example.com/hook'' =
     Some \<lparr>protocol = ''https:'', hostname = ''example.com''\<rparr>"
  by (simp add: sample_newURL_def)

lemma sample_hook_not_internal: "\<not> isInternalUrl sample_newURL ''https://example.com/hook''"
  by code_simp

text \<open>
  Claim C4. When the target does not complete the exchange within 10 seconds (it
  answers or fails later than 10000 milliseconds after the request, or never), the timer
  fires after 10000 milliseconds, the controller is aborted, and the handler answers
  with status 200 and the body \<open>{success: false, error: "Request timeout (>10s)"}\<close>,
  with neither a status code nor a latency.
\<close>

theorem C4_timeout:
  assumes "s \<noteq> []" and "newURL s = Some u"
    and "protocol u = ''http:'' \<or> protocol u = ''https:''"
    and "\<not> isInternalUrl newURL s"
    and "target env = Silent \<or> (target env = Responds st d t \<and> 10000 < d)
      \<or> (target env = Fails e d \<and> 10000 < d)"
  shows "fst (POST newURL env (JsonValue (JString s))) =
           Some \<lparr>status = 200,
                 body = \<lparr>r_success = Some False, r_statusCode = None, r_latency = None,
                         r_error = Some ''Request timeout (>10s)'', r_message = None\<rparr>\<rparr>
         \<and> aborted (snd (POST newURL env (JsonValue (JString s))))
         \<and> waited (snd (POST newURL env (JsonValue (JString s)))) = 10000
         \<and> \<not> timer_pending (snd (POST newURL env (JsonValue (JString s))))
         \<and> length (requests (snd (POST newURL env (JsonValue (JString s))))) = 1"
  using POST_probe [OF assms(1-4), of env] probe_Deadline [OF assms(5), of s]
  by (simp add: json_def failure_def)

text \<open>
  The theorem at \<open>https://example.com/hook\<close>, with a target that never answers and
  with one that answers after 10001 milliseconds.
\<close>

theorem C4_timeout_witness:
  "fst (POST sample_newURL (sample_env Silent) (JsonValue (JString ''https://example.com/hook''))) =
           Some \<lparr>status = 200,
                 body = \<lparr>r_success = Some False, r_statusCode = None, r_latency = None,
                         r_error = Some ''Request timeout (>10s)'', r_message = None\<rparr>\<rparr>
   \<and> aborted (snd (POST sample_newURL (sample_env Silent) (JsonValue (JString ''https://example.com/hook''))))
   \<and> waited (snd (POST sample_newURL (sample_env Silent) (JsonValue (JString ''https://example.com/hook'')))) = 10000
   \<and> fst (POST sample_newURL (sample_env (Responds 200 10001 11001))
            (JsonValue (JString ''https://example.com/hook''))) =
           Some \<lparr>status = 200,
                 body = \<lparr>r_success = Some False, r_statusCode = None, r_latency = None,
                         r_error = Some ''Request timeout (>10s)'', r_message = None\<rparr>\<rparr>"
  using C4_timeout [of "''https://example.com/hook''" sample_newURL
      "\<lparr>protocol = ''https:'', hostname = ''example.com''\<rparr>" "sample_env Silent"]
    C4_timeout [of "''https://example.com/hook''" sample_newURL
      "\<lparr>protocol = ''https:'', hostname = ''example.com''\<rparr>"
      "sample_env (Responds 200 10001 11001)" 200 10001 11001]
    sample_hook_parses sample_hook_not_internal
  by (simp add: sample_env_def)

text \<open>
  Claim C5. When the response arrives before the deadline, whatever its status, the
  handler answers with \<open>success = true\<close>, the status code of the target and the latency
  \<open>Date.now()\<close> after the response minus \<open>Date.now()\<close> before the request.
\<close>

theorem C5_completed_exchange:
  assumes "s \<noteq> []" and "newURL s = Some u"
    and "protocol u = ''http:'' \<or> protocol u = ''https:''"
    and "\<not> isInternalUrl newURL s"
    and "target env = Responds st d endTime" and "d < 10000"
  shows "fst (POST newURL env (JsonValue (JString s))) =
           Some \<lparr>status = 200,
                 body = \<lparr>r_success = Some True, r_statusCode = Some st,
                         r_latency = Some (endTime - startNow env), r_error = None,
                         r_message = Some (''Webhook responded with '' @ show_nat st)\<rparr>\<rparr>"
  using POST_probe [OF assms(1-4), of env] probe_Resolved [OF assms(5,6), of s]
  by (simp add: json_def)

lemma show_nat_404: "show_nat 404 = ''404''"
  by code_simp

text \<open>The theorem at a target that answers 404 after 250 milliseconds.\<close>

theorem C5_completed_exchange_witness:
  "fst (POST sample_newURL (sample_env (Responds 404 250 1250))
          (JsonValue (JString ''https://example.com/hook''))) =
     Some \<lparr>status = 200,
           body = \<lparr>r_success = Some True, r_statusCode = Some 404, r_latency = Some 250,
                   r_error = None, r_message = Some ''Webhook responded with 404''\<rparr>\<rparr>"
  using C5_completed_exchange [of "''https://example.com/hook''" sample_newURL
      "\<lparr>protocol = ''https:'', hostname = ''example.com''\<rparr>"
      "sample_env (Responds 404 250 1250)" 404 250 1250]
    sample_hook_parses sample_hook_not_internal
  by (simp add: sample_env_def show_nat_404)

lemma POST_value_cases:
  "(\<exists>st msg. POST newURL env (JsonValue v) = (Some (json st msg), no_effects) \<and> st \<in> {400, 403})
   \<or> (\<exists>url. POST newURL env (JsonValue v) = probe env url)"
  by (auto simp: POST_def split: option.split)

lemma POST_cases:
  "POST newURL env request = internal_error
   \<or> (\<exists>st msg. POST newURL env request = (Some (json st msg), no_effects) \<and> st \<in> {400, 403})
   \<or> (\<exists>url. POST newURL env request = probe env url)"
  using POST_value_cases [of newURL env] by (cases request) (simp_all add: POST_def)

text \<open>
  Claim C8. No timer is pending when the handler returns, on any path: every probe
  calls \<open>clearTimeout\<close> once, whether the request ended with a response, an abort, a
  network failure or any other thrown value, and a request rejected before the probe
  never set a timer.
\<close>

theorem C8_timer_cleared:
  "\<not> timer_pending (snd (POST newURL env request))
   \<and> clearTimeout_calls (snd (POST newURL env request))
       = length (requests (snd (POST newURL env request)))
   \<and> \<not> timer_pending (snd (probe env url))
   \<and> clearTimeout_calls (snd (probe env url)) = 1"
proof -
  have "\<not> timer_pending (snd (POST newURL env request))
   \<and> clearTimeout_calls (snd (POST newURL env request))
       = length (requests (snd (POST newURL env request)))"
    using POST_cases [of newURL env request] probe_timer
    by (auto simp: internal_error_def no_effects_def timer_pending_def)
  then show ?thesis using probe_timer by simp
qed

lemma probe_returns: "fst (probe env url) \<noteq> None"
  using probe_status [of env url] by (cases "fst (probe env url)") simp_all

lemma POST_returns: "fst (POST newURL env request) \<noteq> None"
  using POST_cases [of newURL env request] probe_returns [of env]
  by (auto simp: internal_error_def)

lemma POST_value_status:
  "map_option status (fst (POST newURL env (JsonValue v))) \<noteq> Some 500"
proof -
  consider st msg where "POST newURL env (JsonValue v) = (Some (json st msg), no_effects)"
      and "st \<in> {400, 403}"
    | url where "POST newURL env (JsonValue v) = probe env url"
    using POST_value_cases [of newURL env v] by blast
  then show ?thesis
  proof cases
    case 1
    then show ?thesis by (auto simp: json_def)
  next
    case 2
    then show ?thesis using probe_status [of env url] by auto
  qed
qed

text \<open>
  Claim C10. When \<open>fetch\<close> throws a value that is not an \<open>Error\<close> instance, the handler
  answers with status 200 and the body \<open>{success: false, error: "Unknown error
  occurred"}\<close>. The status 500 is the answer exactly when reading the request fails
  (\<open>json()\<close> rejects, or the body is \<open>null\<close>), which is before the probe: no request has
  been sent then.
\<close>

theorem C10_non_error_and_500:
  "(s \<noteq> [] \<and> newURL s = Some u \<and> (protocol u = ''http:'' \<or> protocol u = ''https:'')
      \<and> \<not> isInternalUrl newURL s \<and> target env = Fails NonError d \<and> d < 10000
     \<longrightarrow> fst (POST newURL env (JsonValue (JString s))) =
           Some \<lparr>status = 200,
                 body = \<lparr>r_success = Some False, r_statusCode = None, r_latency = None,
                         r_error = Some ''Unknown error occurred'', r_message = None\<rparr>\<rparr>)
   \<and> (map_option status (fst (POST newURL env request)) = Some 500
        \<longleftrightarrow> request = JsonThrows \<or> request = JsonNull)
   \<and> (map_option status (fst (POST newURL env request)) = Some 500
        \<longrightarrow> requests (snd (POST newURL env request)) = [])"
proof -
  have a: "fst (POST newURL env (JsonValue (JString s))) =
           Some \<lparr>status = 200,
                 body = \<lparr>r_success = Some False, r_statusCode = None, r_latency = None,
                         r_error = Some ''Unknown error occurred'', r_message = None\<rparr>\<rparr>"
    if "s \<noteq> []" "newURL s = Some u" "protocol u = ''http:'' \<or> protocol u = ''https:''"
      "\<not> isInternalUrl newURL s" "target env = Fails NonError d" "d < 10000"
    using POST_probe [OF that(1-4), of env] probe_Rejected [OF that(5,6), of s]
    by (simp add: json_def failure_def)
  have b: "map_option status (fst (POST newURL env request)) = Some 500
        \<longleftrightarrow> request = JsonThrows \<or> request = JsonNull"
    using POST_value_status [of newURL env]
    by (cases request) (simp_all add: POST_def internal_error_def json_def)
  have c: "requests (snd (POST newURL env request)) = []"
    if "map_option status (fst (POST newURL env request)) = Some 500"
    using that b by (auto simp: POST_def internal_error_def no_effects_def)
  show ?thesis using a b c by blast
qed

text \<open>The theorem at a \<open>fetch\<close> that throws a non-error, and at the body \<open>null\<close>.\<close>

theorem C10_non_error_and_500_witness:
  "fst (POST sample_newURL (sample_env (Fails NonError 40))
          (JsonValue (JString ''https://example.com/hook''))) =
     Some \<lparr>status = 200,
           body = \<lparr>r_success = Some False, r_statusCode = None, r_latency = None,
                   r_error = Some ''Unknown error occurred'', r_message = None\<rparr>\<rparr>
   \<and> map_option status (fst (POST sample_newURL (sample_env (Fails NonError 40)) JsonNull)) = Some 500
   \<and> requests (snd (POST sample_newURL (sample_env (Fails NonError 40)) JsonNull)) = []"
proof -
  have n: "map_option status (fst (POST sample_newURL (sample_env (Fails NonError 40)) JsonNull)) = Some 500"
    by (simp add: POST_def internal_error_def json_def)
  show ?thesis
    using C10_non_error_and_500 [where s = "''https://example.com/hook''"
        and newURL = sample_newURL
        and u = "\<lparr>protocol = ''https:'', hostname = ''example.com''\<rparr>"
        and env = "sample_env (Fails NonError 40)" and d = 40 and request = JsonNull]
      sample_hook_parses sample_hook_not_internal n
    by (simp add: sample_env_def)
qed

text \<open>
  Claim C6, as stated, fails: a request whose body is \<open>null\<close> has no \<open>url\<close>, and the
  handler answers it with status 500 and "Internal server error", not with status 400.
\<close>

theorem C6_null_body_counterexample:
  "fst (POST sample_newURL (sample_env Silent) JsonNull) =
     Some \<lparr>status = 500,
           body = \<lparr>r_success = Some False, r_statusCode = None, r_latency = None,
                   r_error = Some ''Internal server error'', r_message = None\<rparr>\<rparr>
   \<and> map_option status (fst (POST sample_newURL (sample_env Silent) JsonNull)) \<noteq> Some 400"
  by (simp add: POST_def internal_error_def json_def failure_def)

text \<open>
  Claim C6, amended. A request whose body is not JSON or is \<open>null\<close> is answered with
  status 500 and "Internal server error". On every other body the checks are terminal
  and made in this order: a \<open>url\<close> that is missing, not a string or empty gives status
  400 with "URL is required and must be a string"; a string that does not parse gives 400
  with "Invalid URL format"; a scheme other than http and https gives 400 with "Only HTTP
  and HTTPS protocols are allowed", whatever the host; a lower-cased host that is
  \<open>localhost\<close>, \<open>127.0.0.1\<close>, \<open>0.0.0.0\<close> or a dotted quad 10.x.x.x, 172.16.x.x to
  172.31.x.x, 192.168.x.x or 169.254.x.x gives 403 with "Access to internal/private URLs
  is not allowed". None of these answers comes with an outbound request.
\<close>

theorem C6_rejections_in_order:
  "((request = JsonThrows \<or> request = JsonNull)
      \<longrightarrow> POST newURL env request =
            (Some \<lparr>status = 500,
                   body = \<lparr>r_success = Some False, r_statusCode = None, r_latency = None,
                           r_error = Some ''Internal server error'', r_message = None\<rparr>\<rparr>,
             no_effects\<lparr>console_errors := 1\<rparr>))
   \<and> ((v = JUndefined \<or> typeof v \<noteq> ''string'' \<or> v = JString [])
      \<longrightarrow> POST newURL env (JsonValue v) =
            (Some \<lparr>status = 400,
                   body = \<lparr>r_success = None, r_statusCode = None, r_latency = None,
                           r_error = Some ''URL is required and must be a string'',
                           r_message = None\<rparr>\<rparr>,
             no_effects))
   \<and> (s \<noteq> [] \<and> newURL s = None
      \<longrightarrow> POST newURL env (JsonValue (JString s)) =
            (Some \<lparr>status = 400,
                   body = \<lparr>r_success = Some False, r_statusCode = None, r_latency = None,
                           r_error = Some ''Invalid URL format'', r_message = None\<rparr>\<rparr>,
             no_effects))
   \<and> (s \<noteq> [] \<and> newURL s = Some u \<and> protocol u \<noteq> ''http:'' \<and> protocol u \<noteq> ''https:''
      \<longrightarrow> POST newURL env (JsonValue (JString s)) =
            (Some \<lparr>status = 400,
                   body = \<lparr>r_success = Some False, r_statusCode = None, r_latency = None,
                           r_error = Some ''Only HTTP and HTTPS protocols are allowed'',
                           r_message = None\<rparr>\<rparr>,
             no_effects))
   \<and> (s \<noteq> [] \<and> newURL s = Some u \<and> (protocol u = ''http:'' \<or> protocol u = ''https:'')
        \<and> toLowerCase (hostname u) = h
        \<and> (h = ''localhost'' \<or> h = ''127.0.0.1'' \<or> h = ''0.0.0.0''
           \<or> h = dotted_quad 10 b c d \<or> (h = dotted_quad 172 b c d \<and> 16 \<le> b \<and> b \<le> 31)
           \<or> h = dotted_quad 192 168 c d \<or> h = dotted_quad 169 254 c d)
      \<longrightarrow> POST newURL env (JsonValue (JString s)) =
            (Some \<lparr>status = 403,
                   body = \<lparr>r_success = Some False, r_statusCode = None, r_latency = None,
                           r_error = Some ''Access to internal/private URLs is not allowed'',
                           r_message = None\<rparr>\<rparr>,
             no_effects))
   \<and> requests no_effects = [] \<and> requests (no_effects\<lparr>console_errors := 1\<rparr>) = []"
proof -
  have z: "POST newURL env request =
            (Some \<lparr>status = 500,
                   body = \<lparr>r_success = Some False, r_statusCode = None, r_latency = None,
                           r_error = Some ''Internal server error'', r_message = None\<rparr>\<rparr>,
             no_effects\<lparr>console_errors := 1\<rparr>)"
    if "request = JsonThrows \<or> request = JsonNull"
    using that by (auto simp: POST_def internal_error_def json_def failure_def)
  have a: "POST newURL env (JsonValue v) =
            (Some \<lparr>status = 400,
                   body = \<lparr>r_success = None, r_statusCode = None, r_latency = None,
                           r_error = Some ''URL is required and must be a string'',
                           r_message = None\<rparr>\<rparr>,
             no_effects)"
    if "v = JUndefined \<or> typeof v \<noteq> ''string'' \<or> v = JString []"
    using that by (auto simp: POST_def falsy_def json_def)
  have b: "POST newURL env (JsonValue (JString s)) =
            (Some \<lparr>status = 400,
                   body = \<lparr>r_success = Some False, r_statusCode = None, r_latency = None,
                           r_error = Some ''Invalid URL format'', r_message = None\<rparr>\<rparr>,
             no_effects)"
    if "s \<noteq> []" "newURL s = None"
    using that by (simp add: POST_def falsy_def json_def failure_def)
  have c: "POST newURL env (JsonValue (JString s)) =
            (Some \<lparr>status = 400,
                   body = \<lparr>r_success = Some False, r_statusCode = None, r_latency = None,
                           r_error = Some ''Only HTTP and HTTPS protocols are allowed'',
                           r_message = None\<rparr>\<rparr>,
             no_effects)"
    if "s \<noteq> []" "newURL s = Some u" "protocol u \<noteq> ''http:''" "protocol u \<noteq> ''https:''"
    using that by (simp add: POST_def falsy_def json_def failure_def array_includes_def)
  have d: "POST newURL env (JsonValue (JString s)) =
            (Some \<lparr>status = 403,
                   body = \<lparr>r_success = Some False, r_statusCode = None, r_latency = None,
                           r_error = Some ''Access to internal/private URLs is not allowed'',
                           r_message = None\<rparr>\<rparr>,
             no_effects)"
    if n: "s \<noteq> []" and p: "newURL s = Some u"
      and q: "protocol u = ''http:'' \<or> protocol u = ''https:''"
      and l: "toLowerCase (hostname u) = h"
      and h: "h = ''localhost'' \<or> h = ''127.0.0.1'' \<or> h = ''0.0.0.0''
           \<or> h = dotted_quad 10 b c d \<or> (h = dotted_quad 172 b c d \<and> 16 \<le> b \<and> b \<le> 31)
           \<or> h = dotted_quad 192 168 c d \<or> h = dotted_quad 169 254 c d"
  proof -
    consider "h \<in> set blockedHosts"
      | "h = dotted_quad 10 b c d \<or> (h = dotted_quad 172 b c d \<and> 16 \<le> b \<and> b \<le> 31)
           \<or> h = dotted_quad 192 168 c d \<or> h = dotted_quad 169 254 c d"
      using h by (auto simp: blockedHosts_def)
    then have "isInternalUrl newURL s"
    proof cases
      case 1
      then show ?thesis using p l blocked_internal by blast
    next
      case 2
      then show ?thesis using p l private_ipv4_rejected by blast
    qed
    then show ?thesis
      using POST_internal [of s newURL u env] n p q by (simp add: json_def failure_def)
  qed
  have e: "requests no_effects = [] \<and> requests (no_effects\<lparr>console_errors := 1\<rparr>) = []"
    by (simp add: no_effects_def)
  show ?thesis using z a b c d e by blast
qed

lemma sample_others:
  "sample_newURL ''not a url'' = None"
  "sample_newURL ''ftp://example.com/'' = Some \<lparr>protocol = ''ftp:'', hostname = ''example.com''\<rparr>"
  "sample_newURL ''http://localhost/'' = Some \<lparr>protocol = ''http:'', hostname = ''localhost''\<rparr>"
  "sample_newURL ''http://10.0.0.1/'' = Some \<lparr>protocol = ''http:'', hostname = ''10.0.0.1''\<rparr>"
  by (simp_all add: sample_newURL_def)

lemma sample_lower:
  "toLowerCase (hostname \<lparr>protocol = ''http:'', hostname = ''localhost''\<rparr>) = ''localhost''"
  "toLowerCase (hostname \<lparr>protocol = ''http:'', hostname = ''10.0.0.1''\<rparr>) = ''10.0.0.1''"
  "''10.0.0.1'' = dotted_quad 10 0 0 1"
  by code_simp+

text \<open>The theorem at one request of each kind.\<close>

theorem C6_rejections_in_order_witness:
  "map_option status (fst (POST sample_newURL (sample_env Silent) JsonNull)) = Some 500
   \<and> map_option status (fst (POST sample_newURL (sample_env Silent) (JsonValue (JNumber 5)))) = Some 400
   \<and> map_option (r_error \<circ> body)
        (fst (POST sample_newURL (sample_env Silent) (JsonValue (JString ''not a url''))))
       = Some (Some ''Invalid URL format'')
   \<and> map_option (r_error \<circ> body)
        (fst (POST sample_newURL (sample_env Silent) (JsonValue (JString ''ftp://example.com/''))))
       = Some (Some ''Only HTTP and HTTPS protocols are allowed'')
   \<and> map_option status
        (fst (POST sample_newURL (sample_env Silent) (JsonValue (JString ''http://localhost/'')))) = Some 403
   \<and> POST sample_newURL (sample_env Silent) (JsonValue (JString ''http://10.0.0.1/'')) =
       (Some (json 403 (failure ''Access to internal/private URLs is not allowed'')), no_effects)"
proof -
  note t = C6_rejections_in_order
  have z: "map_option status (fst (POST sample_newURL (sample_env Silent) JsonNull)) = Some 500"
    using t [where request = JsonNull and newURL = sample_newURL and env = "sample_env Silent"]
    by simp
  have a: "map_option status (fst (POST sample_newURL (sample_env Silent) (JsonValue (JNumber 5)))) = Some 400"
    using t [where v = "JNumber 5" and newURL = sample_newURL and env = "sample_env Silent"]
    by simp
  have b: "map_option (r_error \<circ> body)
        (fst (POST sample_newURL (sample_env Silent) (JsonValue (JString ''not a url''))))
       = Some (Some ''Invalid URL format'')"
    using t [where s = "''not a url''" and newURL = sample_newURL and env = "sample_env Silent"]
      sample_others(1)
    by simp
  have c: "map_option (r_error \<circ> body)
        (fst (POST sample_newURL (sample_env Silent) (JsonValue (JString ''ftp://example.com/''))))
       = Some (Some ''Only HTTP and HTTPS protocols are allowed'')"
    using t [where s = "''ftp://example.com/''" and newURL = sample_newURL
        and u = "\<lparr>protocol = ''ftp:'', hostname = ''example.com''\<rparr>"
        and env = "sample_env Silent"]
      sample_others(2)
    by simp
  have d: "map_option status
        (fst (POST sample_newURL (sample_env Silent) (JsonValue (JString ''http://localhost/'')))) = Some 403"
    using t [where s = "''http://localhost/''" and newURL = sample_newURL
        and u = "\<lparr>protocol = ''http:'', hostname = ''localhost''\<rparr>" and h = "''localhost''"
        and env = "sample_env Silent"]
      sample_others(3) sample_lower(1)
    by simp
  have e: "POST sample_newURL (sample_env Silent) (JsonValue (JString ''http://10.0.0.1/'')) =
       (Some (json 403 (failure ''Access to internal/private URLs is not allowed'')), no_effects)"
    using t [where s = "''http://10.0.0.1/''" and newURL = sample_newURL
        and u = "\<lparr>protocol = ''http:'', hostname = ''10.0.0.1''\<rparr>" and h = "''10.0.0.1''"
        and b = 0 and c = 0 and d = 1 and env = "sample_env Silent"]
      sample_others(4) sample_lower(2,3)
    by (simp add: json_def failure_def)
  show ?thesis using z a b c d e by simp
qed

section \<open>Properties of the client, and of client and server together\<close>

lemma sample_link_local_internal: "isInternalUrl sample_newURL ''http://169.254.1.1/''"
  by code_simp

text \<open>
  Claim C2. The client's validator and the server's checks are to accept and reject the
  same URLs. They do not: the client has no rule for 169.254.x.x (nor for \<open>fc00:\<close>,
  \<open>fd00:\<close> and \<open>0:0:0:0:0:0:0:1\<close>), so it accepts \<open>http://169.254.1.1/\<close>, which the
  server rejects with status 403.
\<close>

theorem C2_validators_disagree:
  "isValidUrl sample_newURL ''http://169.254.1.1/''
   \<and> POST sample_newURL env (JsonValue (JString ''http://169.254.1.1/'')) =
       (Some (json 403 (failure ''Access to internal/private URLs is not allowed'')), no_effects)"
proof -
  have v: "isValidUrl sample_newURL ''http://169.254.1.1/''" by code_simp
  have p: "POST sample_newURL env (JsonValue (JString ''http://169.254.1.1/'')) =
       (Some (json 403 (failure ''Access to internal/private URLs is not allowed'')), no_effects)"
    by (rule POST_internal [where u = "\<lparr>protocol = ''http:'', hostname = ''169.254.1.1''\<rparr>"])
       (simp_all add: sample_newURL_def sample_link_local_internal)
  show ?thesis using v p by simp
qed

lemma testWebhook_attempt:
  assumes "trim (c_url st) \<noteq> []" and "isValidUrl newURL (c_url st)"
  shows "c_tests (testWebhook newURL env st) = addTest (newTest env (c_url st)) (c_tests st)"
  using assms by (simp add: testWebhook_def newTest_def Let_def split: backend_result.split)

lemma take_append_take: "take n (xs @ take n ys) = take n (xs @ ys)"
  by (simp add: min_def)

lemma submit_all_tests:
  assumes "list_all (\<lambda>(u, e). trim u \<noteq> [] \<and> isValidUrl newURL u) (a # ins)"
  shows "c_tests (submit_all newURL (a # ins) st) =
           take 20 (rev (map (\<lambda>(u, e). newTest e u) (a # ins)) @ c_tests st)"
  using assms
proof (induction ins arbitrary: a st)
  case Nil
  obtain u e where a: "a = (u, e)" by (cases a)
  from Nil a have ok: "trim u \<noteq> []" "isValidUrl newURL u" by simp_all
  show ?case
    using testWebhook_attempt [of "st\<lparr>c_url := u\<rparr>" newURL e] ok a by (simp add: addTest_def)
next
  case (Cons b ins)
  obtain u e where a: "a = (u, e)" by (cases a)
  from Cons.prems a have ok: "trim u \<noteq> []" "isValidUrl newURL u"
    and rest: "list_all (\<lambda>(u, e). trim u \<noteq> [] \<and> isValidUrl newURL u) (b # ins)"
    by simp_all
  have step: "c_tests (testWebhook newURL e (st\<lparr>c_url := u\<rparr>)) = take 20 (newTest e u # c_tests st)"
    using testWebhook_attempt [of "st\<lparr>c_url := u\<rparr>" newURL e] ok by (simp add: addTest_def)
  have "c_tests (submit_all newURL (a # b # ins) st) =
          take 20 (rev (map (\<lambda>(u, e). newTest e u) (b # ins)) @ take 20 (newTest e u # c_tests st))"
    using Cons.IH [OF rest, of "testWebhook newURL e (st\<lparr>c_url := u\<rparr>)"] a step by simp
  also have "\<dots> = take 20 (rev (map (\<lambda>(u, e). newTest e u) (b # ins)) @ newTest e u # c_tests st)"
    by (rule take_append_take)
  finally show ?case using a by simp
qed

text \<open>
  Claim C7. A probe attempt puts its entry at the head of the history and keeps the
  first 19 of the entries that were there, so the list has at most 20 entries. After any
  sequence of probe attempts the history is the first 20 of the new entries, newest
  first, followed by the old ones; after 25 attempts it is exactly the last 20 entries,
  newest first.
\<close>

theorem C7_history_bounded:
  "(trim (c_url st) \<noteq> [] \<and> isValidUrl newURL (c_url st)
      \<longrightarrow> c_tests (testWebhook newURL env st) = newTest env (c_url st) # take 19 (c_tests st)
          \<and> length (c_tests (testWebhook newURL env st)) \<le> 20)
   \<and> (ins \<noteq> [] \<and> list_all (\<lambda>(u, e). trim u \<noteq> [] \<and> isValidUrl newURL u) ins
      \<longrightarrow> c_tests (submit_all newURL ins st) =
            take 20 (rev (map (\<lambda>(u, e). newTest e u) ins) @ c_tests st)
          \<and> (length ins = 25
              \<longrightarrow> c_tests (submit_all newURL ins st) =
                    rev (map (\<lambda>(u, e). newTest e u) (drop 5 ins))))"
proof -
  have one: "c_tests (testWebhook newURL env st) = newTest env (c_url st) # take 19 (c_tests st)
          \<and> length (c_tests (testWebhook newURL env st)) \<le> 20"
    if "trim (c_url st) \<noteq> []" "isValidUrl newURL (c_url st)"
    using testWebhook_attempt [OF that, of env] by (simp add: addTest_def)
  have many: "c_tests (submit_all newURL ins st) =
            take 20 (rev (map (\<lambda>(u, e). newTest e u) ins) @ c_tests st)"
    if "ins \<noteq> []" "list_all (\<lambda>(u, e). trim u \<noteq> [] \<and> isValidUrl newURL u) ins"
    using that submit_all_tests [of newURL "hd ins" "tl ins" st] by (cases ins) simp_all
  have twentyfive: "c_tests (submit_all newURL ins st) =
                    rev (map (\<lambda>(u, e). newTest e u) (drop 5 ins))"
    if a: "list_all (\<lambda>(u, e). trim u \<noteq> [] \<and> isValidUrl newURL u) ins"
      and l: "length ins = 25"
  proof -
    have "take 20 (rev (map (\<lambda>(u, e). newTest e u) ins) @ c_tests st)
            = take 20 (rev (map (\<lambda>(u, e). newTest e u) ins))"
      using l by simp
    also have "\<dots> = rev (drop 5 (map (\<lambda>(u, e). newTest e u) ins))"
      using l by (simp add: take_rev)
    finally have t: "take 20 (rev (map (\<lambda>(u, e). newTest e u) ins) @ c_tests st)
            = rev (map (\<lambda>(u, e). newTest e u) (drop 5 ins))"
      by (simp add: drop_map)
    from l have "ins \<noteq> []" by auto
    then show ?thesis using many [OF _ a] t by simp
  qed
  show ?thesis using one many twentyfive by blast
qed

lemma sample_hook_valid: "isValidUrl sample_newURL ''https://example.com/hook''"
  by code_simp

lemma sample_hook_trim: "trim ''https://example.com/hook'' \<noteq> []"
  by code_simp

lemma sample_inputs_ok:
  "list_all (\<lambda>(u, e). trim u \<noteq> [] \<and> isValidUrl sample_newURL u) sample_inputs"
  by (simp add: sample_inputs_def list_all_iff sample_hook_valid sample_hook_trim)

lemma sample_inputs_length: "length sample_inputs = 25"
  by (simp add: sample_inputs_def)

text \<open>The theorem at one submission on an empty page, and at 25 submissions.\<close>

theorem C7_history_bounded_witness:
  "c_tests (testWebhook sample_newURL (sample_client_env 1 (Throws NonError))
       (sample_state ''https://example.com/hook'')) =
     [newTest (sample_client_env 1 (Throws NonError)) ''https://example.com/hook'']
   \<and> c_tests (submit_all sample_newURL sample_inputs (sample_state [])) =
       rev (map (\<lambda>(u, e). newTest e u) (drop 5 sample_inputs))
   \<and> length (c_tests (submit_all sample_newURL sample_inputs (sample_state []))) = 20"
proof -
  have a: "c_tests (testWebhook sample_newURL (sample_client_env 1 (Throws NonError))
       (sample_state ''https://example.com/hook'')) =
     [newTest (sample_client_env 1 (Throws NonError)) ''https://example.com/hook'']"
    using C7_history_bounded [where st = "sample_state ''https://example.com/hook''"
        and newURL = sample_newURL and env = "sample_client_env 1 (Throws NonError)"
        and ins = "[]"]
      sample_hook_valid sample_hook_trim
    by (simp add: sample_state_def)
  have b: "c_tests (submit_all sample_newURL sample_inputs (sample_state [])) =
       rev (map (\<lambda>(u, e). newTest e u) (drop 5 sample_inputs))"
    using C7_history_bounded [where st = "sample_state []" and newURL = sample_newURL
        and ins = sample_inputs]
      sample_inputs_ok sample_inputs_length
    by fastforce
  have c: "length (c_tests (submit_all sample_newURL sample_inputs (sample_state []))) = 20"
    using b sample_inputs_length by simp
  show ?thesis using a b c by simp
qed

lemma latency_reported:
  "r_latency data = Some l \<Longrightarrow> l \<noteq> 0 \<Longrightarrow> t_latency (newTest_try env url data) = Some l"
  by (simp add: newTest_try_def or_else_def)

lemma latency_fallback:
  "r_latency data = None \<Longrightarrow>
   t_latency (newTest_try env url data) = Some (Math_round (perfEnd env - perfStart env))"
  by (simp add: newTest_try_def or_else_def)

lemma latency_zero:
  "r_latency data = Some 0 \<Longrightarrow>
   t_latency (newTest_try env url data) = Some (Math_round (perfEnd env - perfStart env))"
  by (simp add: newTest_try_def or_else_def)

lemma show_nat_200: "show_nat 200 = ''200''"
  by code_simp

text \<open>
  Claim C9. The entry is to carry the latency the server reported whenever it reported
  one. A reported latency of 0 is replaced by the client's own measurement: the server
  reports 0 when the response arrives in the millisecond in which the request started,
  and the client then records the 12 milliseconds of its own round trip.
\<close>

theorem C9_zero_latency_replaced:
  "fst (POST sample_newURL (sample_env (Responds 200 0 1000))
       (JsonValue (JString ''https://example.com/hook''))) = Some (json 200 sample_zero_latency)
   \<and> r_latency sample_zero_latency = Some 0
   \<and> map t_latency
        (c_tests (testWebhook sample_newURL
           (sample_client_env 1 (Data sample_zero_latency))
           (sample_state ''https://example.com/hook''))) = [Some 12]"
proof -
  have p: "POST sample_newURL (sample_env (Responds 200 0 1000))
       (JsonValue (JString ''https://example.com/hook'')) =
       probe (sample_env (Responds 200 0 1000)) ''https://example.com/hook''"
    by (rule POST_probe [where u = "\<lparr>protocol = ''https:'', hostname = ''example.com''\<rparr>"])
       (simp_all add: sample_hook_parses sample_hook_not_internal)
  have l: "fst (probe (sample_env (Responds 200 0 1000)) ''https://example.com/hook'')
             = Some (json 200 sample_zero_latency)"
    using probe_Resolved [of "sample_env (Responds 200 0 1000)" 200 0 1000]
    by (simp add: sample_env_def sample_zero_latency_def show_nat_200)
  have z: "r_latency sample_zero_latency = Some 0"
    by (simp add: sample_zero_latency_def)
  have t: "c_tests (testWebhook sample_newURL (sample_client_env 1 (Data sample_zero_latency))
             (sample_state ''https://example.com/hook''))
           = [newTest_try (sample_client_env 1 (Data sample_zero_latency))
                ''https://example.com/hook'' sample_zero_latency]"
    using testWebhook_attempt [of "sample_state ''https://example.com/hook''" sample_newURL
        "sample_client_env 1 (Data sample_zero_latency)"] sample_hook_valid sample_hook_trim
    by (simp add: sample_state_def addTest_def newTest_def sample_client_env_def)
  have r: "Math_round (perfEnd (sample_client_env 1 b) - perfStart (sample_client_env 1 b)) = 12" for b
    by (simp add: Math_round_def sample_client_env_def)
  show ?thesis using p l z t r latency_zero [OF z] by simp
qed

end
